theory Spec2Isabelle
  imports Main
begin

section \<open>Data model of \<^verbatim>\<open>integrations/databricks/dlt_expectations.py\<close>\<close>

text \<open>
  Exceptions that can leave the module. \<open>UnboundLocalError\<close> is a subclass of
  \<open>NameError\<close> in Python, which \<open>is_NameError\<close> (the \<^verbatim>\<open>except NameError\<close>
  test) records. \<open>CollaboratorError\<close> stands for anything raised by code that is called
  from this module but lives outside it (translator, factory, checkpoint runner, the
  engine's registration call, the decorated function).
\<close>

datatype exn =
    NameError
  | UnboundLocalError
  | AttributeError
  | IndexError
  | ModuleNotFoundError string
  | UnsupportedExpectationConfiguration string
  | CollaboratorError string

fun is_NameError :: "exn \<Rightarrow> bool" where
  "is_NameError NameError = True"
| "is_NameError UnboundLocalError = True"
| "is_NameError _ = False"

text \<open>Opaque Python values: the call arguments and the return value of the decorated function.\<close>

datatype pyval = PyNone | PyInt int | PyStr string | PyObj string

text \<open>
  A module object (\<^verbatim>\<open>types.ModuleType\<close>): the engine handle. The only attribute this
  file reads by name is \<^verbatim>\<open>__version__\<close>, which a module may lack.
\<close>

datatype ModuleType = ModuleType (mod_name: string) (mod_version: "string option")

text \<open>
  Modelled from the spec: the class \<^verbatim>\<open>DLTExpectation\<close> of
  \<^verbatim>\<open>integrations.databricks.dlt_expectation\<close> is imported, not defined, by the source file.
  The spec gives it as an immutable record of a name and a condition string, with no
  validation of its own. The name is optional because the decorator's
  \<^verbatim>\<open>dlt_expectation_name\<close> defaults to \<^verbatim>\<open>None\<close> and is passed on as it is.
\<close>

record DLTExpectation =
  name :: "string option"
  condition :: string

text \<open>
  Modelled from the spec: \<^verbatim>\<open>ExpectationConfiguration\<close> and \<^verbatim>\<open>BaseDataContext\<close> are
  types of the validation-suite engine, imported by the source file: a named rule with
  parameters, and an opaque context object.
\<close>

datatype ExpectationConfiguration =
  ExpectationConfiguration (expectation_type: string) (config_kwargs: "(string \<times> pyval) list")

datatype BaseDataContext = BaseDataContext string

text \<open>
  The parameters captured by \<^verbatim>\<open>expect(...)\<close> at decoration time. Each one defaults to
  \<^verbatim>\<open>None\<close> in the source, except \<^verbatim>\<open>dlt_library\<close>, whose default is the module-level
  \<^verbatim>\<open>dlt_mock_library\<close> (itself \<^verbatim>\<open>None\<close> when its import failed).
\<close>

record decoration =
  dlt_expectation_name :: "string option"
  dlt_expectation_condition :: "string option"
  data_context :: "BaseDataContext option"
  ge_expectation_configuration :: "ExpectationConfiguration option"
  dlt_library :: "ModuleType option"

text \<open>
  The collaborators called by the wrapper, as parameters: each one returns a value or
  raises. \<^verbatim>\<open>from_great_expectations_expectation\<close> may return \<^verbatim>\<open>None\<close>, which the
  wrapper tests for before registration. \<open>dlt_expect\<close> is the \<^verbatim>\<open>expect\<close> attribute of
  the resolved engine module.
\<close>

record collaborators =
  translate_dlt_expectation_to_expectation_config ::
    "(string option \<times> string) list \<Rightarrow> string \<Rightarrow> exn + ExpectationConfiguration"
  from_great_expectations_expectation ::
    "ExpectationConfiguration \<Rightarrow> string option \<Rightarrow> exn + DLTExpectation option"
  run_ge_checkpoint_on_dataframe_from_suite ::
    "BaseDataContext \<Rightarrow> pyval \<Rightarrow> ExpectationConfiguration option \<Rightarrow> exn + pyval"
  dlt_expect :: "ModuleType \<Rightarrow> string option \<Rightarrow> string \<Rightarrow> exn + pyval"

text \<open>Every call that leaves the wrapper, in the order it is made.\<close>

datatype event =
    Print string
  | DLTExpectationInit "string option" string
  | TranslateCall "(string option \<times> string) list" string
  | DLTExpectationFactoryInit
  | FactoryCall ExpectationConfiguration "string option"
  | CheckpointCall BaseDataContext pyval "ExpectationConfiguration option"
  | DltExpectCall ModuleType "string option" string
  | FuncCall "pyval list" "(string \<times> pyval) list"

text \<open>A computation: the calls made so far, and an exception or a value.\<close>

type_synonym 'a io = "event list \<times> (exn + 'a)"

definition io_return :: "'a \<Rightarrow> 'a io" where
  "io_return a = ([], Inr a)"

definition io_raise :: "exn \<Rightarrow> 'a io" where
  "io_raise e = ([], Inl e)"

definition io_lift :: "exn + 'a \<Rightarrow> 'a io" where
  "io_lift r = ([], r)"

definition io_call :: "event \<Rightarrow> exn + 'a \<Rightarrow> 'a io" where
  "io_call ev r = ([ev], r)"

definition io_bind :: "'a io \<Rightarrow> ('a \<Rightarrow> 'b io) \<Rightarrow> 'b io" where
  "io_bind m f =
     (case snd m of
        Inl e \<Rightarrow> (fst m, Inl e)
      | Inr a \<Rightarrow> (fst m @ fst (f a), snd (f a)))"

section \<open>The host-engine resolver \<^verbatim>\<open>_get_dlt_library\<close>\<close>

text \<open>
  A namespace binds names to \<^verbatim>\<open>None\<close> or a module. Python decides at compile time which
  names of a function body are local: its parameters and every name the body assigns.
  A local name is only ever looked up among the locals, and reading it before it is
  assigned raises \<open>UnboundLocalError\<close>; any other name is looked up among the globals and
  raises \<open>NameError\<close> when absent.
\<close>

type_synonym namespace = "string \<rightharpoonup> ModuleType option"

definition load_name ::
  "string list \<Rightarrow> namespace \<Rightarrow> namespace \<Rightarrow> string \<Rightarrow> exn + ModuleType option" where
  "load_name local_names locals globals x =
     (if x \<in> set local_names
      then (case locals x of None \<Rightarrow> Inl UnboundLocalError | Some v \<Rightarrow> Inr v)
      else (case globals x of None \<Rightarrow> Inl NameError | Some v \<Rightarrow> Inr v))"

text \<open>The attribute access \<^verbatim>\<open>dlt.__version__\<close>.\<close>

definition getattr_version :: "ModuleType option \<Rightarrow> exn + string" where
  "getattr_version v =
     (case v of
        None \<Rightarrow> Inl AttributeError
      | Some m \<Rightarrow> (case mod_version m of None \<Rightarrow> Inl AttributeError | Some s \<Rightarrow> Inr s))"

text \<open>
  The body of \<^verbatim>\<open>_get_dlt_library\<close> has the parameter \<^verbatim>\<open>dlt_library\<close> and assigns
  \<^verbatim>\<open>dlt\<close> (line 53), so both names are local to it.
\<close>

definition get_dlt_library_local_names :: "string list" where
  "get_dlt_library_local_names = [''dlt_library'', ''dlt'']"

text \<open>
  Lines 50-58. \<open>probe\<close> is the \<^verbatim>\<open>try\<close> body \<^verbatim>\<open>dlt.__version__\<close>; the handler runs
  \<^verbatim>\<open>dlt = dlt_library\<close> for a \<open>NameError\<close> (or a subclass) and lets anything else
  through; then comes the \<^verbatim>\<open>if dlt is None\<close> test.
\<close>

definition get_dlt_library :: "namespace \<Rightarrow> ModuleType option \<Rightarrow> exn + ModuleType" where
  "get_dlt_library globals dlt_library_arg =
     (let names = get_dlt_library_local_names;
          locals0 = [''dlt_library'' \<mapsto> dlt_library_arg];
          probe = (case load_name names locals0 globals ''dlt'' of
                     Inl e \<Rightarrow> Inl e
                   | Inr v \<Rightarrow> getattr_version v);
          after_try = (case probe of
                     Inr _ \<Rightarrow> Inr locals0
                   | Inl e \<Rightarrow>
                       if is_NameError e
                       then (case load_name names locals0 globals ''dlt_library'' of
                               Inl e' \<Rightarrow> Inl e'
                             | Inr v \<Rightarrow> Inr (locals0(''dlt'' \<mapsto> v)))
                       else Inl e)
      in case after_try of
           Inl e \<Rightarrow> Inl e
         | Inr locals1 \<Rightarrow>
             (case load_name names locals1 globals ''dlt'' of
                Inl e \<Rightarrow> Inl e
              | Inr None \<Rightarrow> Inl (ModuleNotFoundError ''dlt library was not found'')
              | Inr (Some m) \<Rightarrow> Inr m))"

section \<open>The wrapper built by \<^verbatim>\<open>expect\<close>\<close>

text \<open>Lines 87-100: exactly one of condition and configuration.\<close>

definition check_exactly_one :: "decoration \<Rightarrow> unit io" where
  "check_exactly_one d =
     (if dlt_expectation_condition d \<noteq> None \<and> ge_expectation_configuration d \<noteq> None
      then io_raise (UnsupportedExpectationConfiguration
        ''Please provide only one of dlt_expectation_condition OR ge_expectation_configuration, not both.'')
      else if dlt_expectation_condition d = None \<and> ge_expectation_configuration d = None
      then io_raise (UnsupportedExpectationConfiguration
        ''Please provide at least one type of expectation configuration'')
      else io_return ())"

text \<open>
  Lines 103-123. The constructors \<^verbatim>\<open>DLTExpectation(...)\<close> and
  \<^verbatim>\<open>DLTExpectationFactory()\<close> are recorded as calls and always return, the first one
  the record of its two arguments. The result is the binding of the local variable
  \<^verbatim>\<open>dlt_expectation\<close>:
  \<open>None\<close> when neither branch assigned it, \<open>Some None\<close> when it is bound to \<^verbatim>\<open>None\<close>,
  \<open>Some (Some e)\<close> when it is bound to an expectation. The translated configuration
  \<^verbatim>\<open>ge_expectation\<close> of the first branch is never read again.
\<close>

definition create_dlt_expectation ::
  "collaborators \<Rightarrow> decoration \<Rightarrow> DLTExpectation option option io" where
  "create_dlt_expectation E d =
     (case dlt_expectation_condition d of
        Some c \<Rightarrow>
          io_bind (io_call (DLTExpectationInit (dlt_expectation_name d) c)
                     (Inr \<lparr>name = dlt_expectation_name d, condition = c\<rparr>))
            (\<lambda>dlt_expectation.
          io_bind (io_call
                     (TranslateCall [(name dlt_expectation, condition dlt_expectation)]
                        ''expect_column_values_to_not_be_null'')
                     (translate_dlt_expectation_to_expectation_config E
                        [(name dlt_expectation, condition dlt_expectation)]
                        ''expect_column_values_to_not_be_null''))
            (\<lambda>ge_expectation.
          io_return (Some (Some dlt_expectation))))
      | None \<Rightarrow>
          (case ge_expectation_configuration d of
             Some cfg \<Rightarrow>
               io_bind (io_call DLTExpectationFactoryInit (Inr ()))
                 (\<lambda>dlt_expectation_factory.
               io_bind (io_call (FactoryCall cfg (dlt_expectation_name d))
                          (from_great_expectations_expectation E cfg (dlt_expectation_name d)))
                 (\<lambda>dlt_expectation.
               io_return (Some dlt_expectation)))
           | None \<Rightarrow> io_return None))"

text \<open>
  Lines 127-132. The keyword arguments of the call are evaluated before the call is
  made, so \<^verbatim>\<open>args[0]\<close> on an empty tuple raises \<open>IndexError\<close> and the runner is not called.
\<close>

definition run_checkpoint :: "collaborators \<Rightarrow> decoration \<Rightarrow> pyval list \<Rightarrow> unit io" where
  "run_checkpoint E d args =
     (case data_context d of
        None \<Rightarrow> io_return ()
      | Some ctx \<Rightarrow>
          (case args of
             [] \<Rightarrow> io_raise IndexError
           | df # rest \<Rightarrow>
               io_bind (io_call (CheckpointCall ctx df (ge_expectation_configuration d))
                          (run_ge_checkpoint_on_dataframe_from_suite E ctx df
                             (ge_expectation_configuration d)))
                 (\<lambda>result. io_return ())))"

text \<open>How an f-string renders the name: \<^verbatim>\<open>None\<close> prints as the word None.\<close>

definition format_name :: "string option \<Rightarrow> string" where
  "format_name n = (case n of None \<Rightarrow> ''None'' | Some s \<Rightarrow> s)"

definition apply_message :: "DLTExpectation \<Rightarrow> string" where
  "apply_message e =
     ''Here we would normally apply: @dlt.expect('' @ [CHR 0x22] @ format_name (name e)
       @ [CHR 0x22] @ '', '' @ [CHR 0x22] @ condition e @ [CHR 0x22] @ '')''"

definition injected_message :: string where
  "injected_message =
     ''Here we are instead calling @dlt_mock_library_injected.expect() with appropriate parameters, in the real system the `dlt_mock_library_injected` will be replaced with the main `dlt` library that we pass into the decorator via the `dlt` parameter.''"

text \<open>Lines 136-144: registration with the resolved engine \<open>dlt\<close>.\<close>

definition register_dlt_expectation ::
  "collaborators \<Rightarrow> ModuleType \<Rightarrow> DLTExpectation option option \<Rightarrow> unit io" where
  "register_dlt_expectation E dlt binding =
     (case binding of
        None \<Rightarrow> io_raise UnboundLocalError
      | Some None \<Rightarrow> io_return ()
      | Some (Some dlt_expectation) \<Rightarrow>
          io_bind (io_call (Print (apply_message dlt_expectation)) (Inr ())) (\<lambda>u1.
          io_bind (io_call (Print injected_message) (Inr ())) (\<lambda>u2.
          io_bind (io_call (DltExpectCall dlt (name dlt_expectation) (condition dlt_expectation))
                     (dlt_expect E dlt (name dlt_expectation) (condition dlt_expectation)))
            (\<lambda>result.
          io_call (Print [CHR 0x0A]) (Inr ())))))"

text \<open>
  Lines 83-146: \<^verbatim>\<open>wrapper_expect(*args, **kwargs)\<close>, for the module globals \<open>G\<close>, the
  collaborators \<open>E\<close>, the decoration \<open>d\<close> and the decorated function \<open>func\<close>.
\<close>

definition wrapper_expect ::
  "collaborators \<Rightarrow> namespace \<Rightarrow> decoration
     \<Rightarrow> (pyval list \<Rightarrow> (string \<times> pyval) list \<Rightarrow> exn + pyval)
     \<Rightarrow> pyval list \<Rightarrow> (string \<times> pyval) list \<Rightarrow> pyval io" where
  "wrapper_expect E G d func args kwargs =
     io_bind (io_lift (get_dlt_library G (dlt_library d))) (\<lambda>dlt.
     io_bind (check_exactly_one d) (\<lambda>u1.
     io_bind (create_dlt_expectation E d) (\<lambda>dlt_expectation.
     io_bind (run_checkpoint E d args) (\<lambda>u2.
     io_bind (register_dlt_expectation E dlt dlt_expectation) (\<lambda>u3.
     io_call (FuncCall args kwargs) (func args kwargs))))))"

section \<open>Reading a trace\<close>

fun is_FuncCall :: "event \<Rightarrow> bool" where
  "is_FuncCall (FuncCall a k) = True"
| "is_FuncCall _ = False"

fun is_CheckpointCall :: "event \<Rightarrow> bool" where
  "is_CheckpointCall (CheckpointCall c df g) = True"
| "is_CheckpointCall _ = False"

fun is_TranslateCall :: "event \<Rightarrow> bool" where
  "is_TranslateCall (TranslateCall ps t) = True"
| "is_TranslateCall _ = False"

fun is_DltExpectCall :: "event \<Rightarrow> bool" where
  "is_DltExpectCall (DltExpectCall m n c) = True"
| "is_DltExpectCall _ = False"

section \<open>When a collaborator returns\<close>

definition returns :: "exn + 'a \<Rightarrow> bool" where
  "returns r = (case r of Inl e \<Rightarrow> False | Inr a \<Rightarrow> True)"

text \<open>
  Exactly one of condition and configuration is supplied, and the collaborator that the
  corresponding branch of lines 103-123 calls returns, at the arguments it is called with.
\<close>

definition expectation_built :: "collaborators \<Rightarrow> decoration \<Rightarrow> bool" where
  "expectation_built E d =
     (case (dlt_expectation_condition d, ge_expectation_configuration d) of
        (Some c, None) \<Rightarrow>
          returns (translate_dlt_expectation_to_expectation_config E
                     [(dlt_expectation_name d, c)] ''expect_column_values_to_not_be_null'')
      | (None, Some cfg) \<Rightarrow>
          returns (from_great_expectations_expectation E cfg (dlt_expectation_name d))
      | (Some c, Some cfg) \<Rightarrow> False
      | (None, None) \<Rightarrow> False)"

text \<open>
  No validation context was supplied; or one was, the call has a first positional
  argument, and the checkpoint runner returns on it.
\<close>

definition checkpoint_returns :: "collaborators \<Rightarrow> decoration \<Rightarrow> pyval list \<Rightarrow> bool" where
  "checkpoint_returns E d args =
     (case data_context d of
        None \<Rightarrow> True
      | Some ctx \<Rightarrow>
          (case args of
             [] \<Rightarrow> False
           | df # rest \<Rightarrow>
               returns (run_ge_checkpoint_on_dataframe_from_suite E ctx df
                          (ge_expectation_configuration d))))"

text \<open>
  The expectation that reaches line 136: the one constructed from the decoration on the
  condition branch, the factory's result (possibly \<^verbatim>\<open>None\<close>) on the configuration branch.
\<close>

definition produced_expectation :: "collaborators \<Rightarrow> decoration \<Rightarrow> DLTExpectation option" where
  "produced_expectation E d =
     (case dlt_expectation_condition d of
        Some c \<Rightarrow> Some \<lparr>name = dlt_expectation_name d, condition = c\<rparr>
      | None \<Rightarrow>
          (case ge_expectation_configuration d of
             None \<Rightarrow> None
           | Some cfg \<Rightarrow>
               (case from_great_expectations_expectation E cfg (dlt_expectation_name d) of
                  Inl e \<Rightarrow> None
                | Inr b \<Rightarrow> b)))"

text \<open>The engine's registration call returns on the produced expectation, if there is one.\<close>

definition registration_returns :: "collaborators \<Rightarrow> ModuleType \<Rightarrow> decoration \<Rightarrow> bool" where
  "registration_returns E m d =
     (case produced_expectation E d of
        None \<Rightarrow> True
      | Some e \<Rightarrow> returns (dlt_expect E m (name e) (condition e)))"

section \<open>Test doubles\<close>

definition mock_dlt :: ModuleType where
  "mock_dlt = ModuleType ''dlt_mock_library'' None"

definition runtime_dlt :: ModuleType where
  "runtime_dlt = ModuleType ''dlt'' (Some ''1.0'')"

definition not_null_config :: ExpectationConfiguration where
  "not_null_config =
     ExpectationConfiguration ''expect_column_values_to_not_be_null'' [(''column'', PyStr ''col1'')]"

definition context0 :: BaseDataContext where
  "context0 = BaseDataContext ''context''"

text \<open>Collaborators that always return.\<close>

definition stub_collaborators :: collaborators where
  "stub_collaborators =
     \<lparr>translate_dlt_expectation_to_expectation_config =
        (\<lambda>ps t. Inr (ExpectationConfiguration t [])),
      from_great_expectations_expectation =
        (\<lambda>cfg n. Inr (Some \<lparr>name = n, condition = ''col1 IS NOT NULL''\<rparr>)),
      run_ge_checkpoint_on_dataframe_from_suite = (\<lambda>ctx df cfg. Inr PyNone),
      dlt_expect = (\<lambda>m n c. Inr PyNone)\<rparr>"

text \<open>A factory that rejects every configuration.\<close>

definition rejecting_factory :: collaborators where
  "rejecting_factory =
     stub_collaborators\<lparr>from_great_expectations_expectation :=
       (\<lambda>cfg n. Inl (CollaboratorError ''unsupported expectation type''))\<rparr>"

text \<open>A checkpoint runner that fails.\<close>

definition failing_checkpoint :: collaborators where
  "failing_checkpoint =
     stub_collaborators\<lparr>run_ge_checkpoint_on_dataframe_from_suite :=
       (\<lambda>ctx df cfg. Inl (CollaboratorError ''checkpoint failed''))\<rparr>"

definition add_column :: "pyval list \<Rightarrow> (string \<times> pyval) list \<Rightarrow> exn + pyval" where
  "add_column args kwargs = Inr (PyObj ''df_with_column'')"

text \<open>The decoration of the spec's example: a condition, a name, an injected engine.\<close>

definition positive_col1 :: decoration where
  "positive_col1 =
     \<lparr>dlt_expectation_name = Some ''positive_col1'',
      dlt_expectation_condition = Some ''col1 > 0'',
      data_context = None,
      ge_expectation_configuration = None,
      dlt_library = Some mock_dlt\<rparr>"

text \<open>The same decoration with the name left at its default.\<close>

definition unnamed_condition :: decoration where
  "unnamed_condition = positive_col1\<lparr>dlt_expectation_name := None\<rparr>"

text \<open>A decoration by configuration.\<close>

definition by_configuration :: decoration where
  "by_configuration =
     \<lparr>dlt_expectation_name = Some ''col1_not_null'',
      dlt_expectation_condition = None,
      data_context = None,
      ge_expectation_configuration = Some not_null_config,
      dlt_library = Some mock_dlt\<rparr>"

section \<open>The resolver\<close>

lemma get_dlt_library_injected:
  "get_dlt_library G lib =
     (case lib of
        None \<Rightarrow> Inl (ModuleNotFoundError ''dlt library was not found'')
      | Some m \<Rightarrow> Inr m)"
  by (simp add: get_dlt_library_def get_dlt_library_local_names_def load_name_def
      split: option.splits)

section \<open>Sequencing\<close>

lemma io_bind_raise [simp]: "io_bind (t, Inl e) f = (t, Inl e)"
  by (simp add: io_bind_def)

lemma io_bind_value [simp]: "io_bind (t, Inr a) f = (t @ fst (f a), snd (f a))"
  by (simp add: io_bind_def)

lemmas step_defs =
  check_exactly_one_def create_dlt_expectation_def run_checkpoint_def
  register_dlt_expectation_def io_return_def io_raise_def io_lift_def io_call_def

lemma fst_io_bind:
  "fst (io_bind m f) = (case snd m of Inl e \<Rightarrow> fst m | Inr a \<Rightarrow> fst m @ fst (f a))"
  by (simp add: io_bind_def split: sum.splits)

lemma snd_io_bind:
  "snd (io_bind m f) = (case snd m of Inl e \<Rightarrow> Inl e | Inr a \<Rightarrow> snd (f a))"
  by (simp add: io_bind_def split: sum.splits)

section \<open>The steps of the wrapper, one at a time\<close>

lemma wrapper_expect_injected:
  assumes "dlt_library d = Some m"
  shows "wrapper_expect E G d func args kwargs =
     io_bind (check_exactly_one d) (\<lambda>u1.
     io_bind (create_dlt_expectation E d) (\<lambda>dlt_expectation.
     io_bind (run_checkpoint E d args) (\<lambda>u2.
     io_bind (register_dlt_expectation E m dlt_expectation) (\<lambda>u3.
     io_call (FuncCall args kwargs) (func args kwargs)))))"
  using assms by (simp add: wrapper_expect_def get_dlt_library_injected io_lift_def)

lemma check_exactly_one_built:
  assumes "expectation_built E d"
  shows "check_exactly_one d = ([], Inr ())"
  using assms
  by (auto simp: check_exactly_one_def expectation_built_def io_return_def
      split: option.splits)

lemma create_dlt_expectation_calls:
  "filter is_FuncCall (fst (create_dlt_expectation E d)) = []"
  "filter is_CheckpointCall (fst (create_dlt_expectation E d)) = []"
  "filter is_DltExpectCall (fst (create_dlt_expectation E d)) = []"
  by (simp_all add: create_dlt_expectation_def io_return_def io_call_def fst_io_bind
      split: option.splits sum.splits)

lemma create_dlt_expectation_built:
  assumes "expectation_built E d"
  shows "snd (create_dlt_expectation E d) = Inr (Some (produced_expectation E d))"
  using assms
  by (auto simp: create_dlt_expectation_def expectation_built_def produced_expectation_def
      returns_def io_return_def io_call_def snd_io_bind split: option.splits sum.splits)

lemma run_checkpoint_calls:
  "filter is_FuncCall (fst (run_checkpoint E d args)) = []"
  "filter is_DltExpectCall (fst (run_checkpoint E d args)) = []"
  by (simp_all add: run_checkpoint_def io_return_def io_raise_def io_call_def fst_io_bind
      split: option.splits sum.splits list.splits)

lemma run_checkpoint_trace:
  "fst (run_checkpoint E d args) =
     (case data_context d of
        None \<Rightarrow> []
      | Some ctx \<Rightarrow>
          (case args of
             [] \<Rightarrow> []
           | df # rest \<Rightarrow> [CheckpointCall ctx df (ge_expectation_configuration d)]))"
  by (simp add: run_checkpoint_def io_return_def io_raise_def io_call_def fst_io_bind
      split: option.splits sum.splits list.splits)

lemma run_checkpoint_returns:
  assumes "checkpoint_returns E d args"
  shows "snd (run_checkpoint E d args) = Inr ()"
  using assms
  by (auto simp: run_checkpoint_def checkpoint_returns_def returns_def io_return_def
      io_call_def snd_io_bind split: option.splits sum.splits list.splits)

lemma register_dlt_expectation_calls:
  "filter is_FuncCall (fst (register_dlt_expectation E m b)) = []"
  "filter is_CheckpointCall (fst (register_dlt_expectation E m b)) = []"
  "filter is_DltExpectCall (fst (register_dlt_expectation E m b)) =
     (case b of
        Some (Some e) \<Rightarrow> [DltExpectCall m (name e) (condition e)]
      | _ \<Rightarrow> [])"
  by (simp_all add: register_dlt_expectation_def io_return_def io_raise_def io_call_def
      fst_io_bind split: option.splits sum.splits)

lemma register_dlt_expectation_result:
  "snd (register_dlt_expectation E m (Some b)) =
     (case b of
        None \<Rightarrow> Inr ()
      | Some e \<Rightarrow>
          (case dlt_expect E m (name e) (condition e) of
             Inl x \<Rightarrow> Inl x
           | Inr r \<Rightarrow> Inr ()))"
  by (simp add: register_dlt_expectation_def io_return_def io_call_def snd_io_bind
      split: option.splits sum.splits)

lemma register_dlt_expectation_returns:
  assumes "registration_returns E m d"
  shows "snd (register_dlt_expectation E m (Some (produced_expectation E d))) = Inr ()"
  using assms
  by (auto simp: register_dlt_expectation_result registration_returns_def returns_def
      split: option.splits sum.splits)

lemma check_exactly_one_condition:
  assumes "dlt_expectation_condition d = Some c" and "ge_expectation_configuration d = None"
  shows "check_exactly_one d = ([], Inr ())"
  using assms by (simp add: check_exactly_one_def io_return_def)

lemma check_exactly_one_configuration:
  assumes "dlt_expectation_condition d = None" and "ge_expectation_configuration d = Some cfg"
  shows "check_exactly_one d = ([], Inr ())"
  using assms by (simp add: check_exactly_one_def io_return_def)

lemma create_dlt_expectation_condition:
  assumes "dlt_expectation_condition d = Some c"
  shows "create_dlt_expectation E d =
     ([DLTExpectationInit (dlt_expectation_name d) c,
       TranslateCall [(dlt_expectation_name d, c)] ''expect_column_values_to_not_be_null''],
      (case translate_dlt_expectation_to_expectation_config E [(dlt_expectation_name d, c)]
              ''expect_column_values_to_not_be_null'' of
         Inl x \<Rightarrow> Inl x
       | Inr g \<Rightarrow> Inr (Some (Some \<lparr>name = dlt_expectation_name d, condition = c\<rparr>))))"
  using assms
  by (simp add: create_dlt_expectation_def io_return_def io_call_def io_bind_def
      split: sum.splits)

lemma create_dlt_expectation_configuration:
  assumes "dlt_expectation_condition d = None" and "ge_expectation_configuration d = Some cfg"
  shows "create_dlt_expectation E d =
     ([DLTExpectationFactoryInit, FactoryCall cfg (dlt_expectation_name d)],
      (case from_great_expectations_expectation E cfg (dlt_expectation_name d) of
         Inl x \<Rightarrow> Inl x
       | Inr b \<Rightarrow> Inr (Some b)))"
  using assms
  by (simp add: create_dlt_expectation_def io_return_def io_call_def io_bind_def
      split: sum.splits)

lemma later_steps_do_not_translate:
  "filter is_TranslateCall (fst (run_checkpoint E d args)) = []"
  "filter is_TranslateCall (fst (register_dlt_expectation E m b)) = []"
  by (simp_all add: run_checkpoint_def register_dlt_expectation_def io_return_def
      io_raise_def io_call_def fst_io_bind split: option.splits sum.splits list.splits)

lemma run_checkpoint_no_argument:
  assumes "data_context d = Some ctx"
  shows "run_checkpoint E d [] = ([], Inl IndexError)"
  using assms by (simp add: run_checkpoint_def io_raise_def)

lemma wrapper_expect_completes:
  assumes "dlt_library d = Some m"
    and "expectation_built E d"
    and "checkpoint_returns E d args"
    and "registration_returns E m d"
  shows "wrapper_expect E G d func args kwargs =
     (fst (create_dlt_expectation E d) @ fst (run_checkpoint E d args)
        @ fst (register_dlt_expectation E m (Some (produced_expectation E d)))
        @ [FuncCall args kwargs],
      func args kwargs)"
proof -
  have "fst (wrapper_expect E G d func args kwargs) =
      fst (create_dlt_expectation E d) @ fst (run_checkpoint E d args)
        @ fst (register_dlt_expectation E m (Some (produced_expectation E d)))
        @ [FuncCall args kwargs]"
    using assms
    by (simp add: wrapper_expect_injected check_exactly_one_built fst_io_bind
        create_dlt_expectation_built run_checkpoint_returns
        register_dlt_expectation_returns io_call_def)
  moreover have "snd (wrapper_expect E G d func args kwargs) = func args kwargs"
    using assms
    by (simp add: wrapper_expect_injected check_exactly_one_built snd_io_bind
        create_dlt_expectation_built run_checkpoint_returns
        register_dlt_expectation_returns io_call_def)
  ultimately show ?thesis
    by (simp add: prod_eq_iff)
qed

section \<open>C1: the resolver and a globally bound engine\<close>

text \<open>
  C1 says that the resolver returns the process-global engine handle whenever one is
  bound, and falls back to the injected handle only otherwise; the docstring of
  \<^verbatim>\<open>_get_dlt_library\<close> says the same. The code does not do it: the assignment on line 53
  makes \<^verbatim>\<open>dlt\<close> a local name, so the probe on line 51 always raises
  \<open>UnboundLocalError\<close>, which the handler catches as a \<open>NameError\<close>. With a versioned
  module bound to the global name \<^verbatim>\<open>dlt\<close>, the resolver returns the injected module,
  a different one, and with nothing injected it raises although the global is bound.
\<close>

theorem C1_global_handle_not_consulted:
  "get_dlt_library [''dlt'' \<mapsto> Some runtime_dlt] (Some mock_dlt) = Inr mock_dlt
   \<and> mock_dlt \<noteq> runtime_dlt
   \<and> get_dlt_library [''dlt'' \<mapsto> Some runtime_dlt] None
       = Inl (ModuleNotFoundError ''dlt library was not found'')"
  by (simp add: get_dlt_library_def get_dlt_library_local_names_def load_name_def
      mock_dlt_def runtime_dlt_def)

section \<open>C2: both or neither of condition and configuration\<close>

text \<open>
  C2 as stated, for every call with both options supplied, fails when no engine can be
  resolved: the resolver runs first (line 85) and its error is the one raised.
\<close>

theorem C2_counterexample:
  "wrapper_expect stub_collaborators Map.empty
     (positive_col1\<lparr>ge_expectation_configuration := Some not_null_config,
                     dlt_library := None\<rparr>)
     add_column [PyObj ''df''] []
   = ([], Inl (ModuleNotFoundError ''dlt library was not found''))"
  by (simp add: wrapper_expect_def get_dlt_library_injected io_lift_def positive_col1_def)

text \<open>
  C2, amended: with an injected engine, a call whose decoration supplied both condition
  and configuration raises \<open>UnsupportedExpectationConfiguration\<close> with the message
  naming both, a call whose decoration supplied neither raises it with the message
  asking for at least one, and in both cases nothing has been called before: the trace
  is empty, so the original function has not run.
\<close>

theorem C2_exactly_one_enforced:
  assumes "dlt_library d = Some m"
  shows "(dlt_expectation_condition d \<noteq> None \<and> ge_expectation_configuration d \<noteq> None \<longrightarrow>
            wrapper_expect E G d func args kwargs
            = ([], Inl (UnsupportedExpectationConfiguration
                 ''Please provide only one of dlt_expectation_condition OR ge_expectation_configuration, not both.'')))
       \<and> (dlt_expectation_condition d = None \<and> ge_expectation_configuration d = None \<longrightarrow>
            wrapper_expect E G d func args kwargs
            = ([], Inl (UnsupportedExpectationConfiguration
                 ''Please provide at least one type of expectation configuration'')))"
  using assms by (simp add: wrapper_expect_def get_dlt_library_injected step_defs)

theorem C2_exactly_one_enforced_witness:
  "wrapper_expect stub_collaborators Map.empty
     (positive_col1\<lparr>ge_expectation_configuration := Some not_null_config\<rparr>)
     add_column [PyObj ''df''] []
   = ([], Inl (UnsupportedExpectationConfiguration
        ''Please provide only one of dlt_expectation_condition OR ge_expectation_configuration, not both.''))
   \<and> wrapper_expect stub_collaborators Map.empty
     (positive_col1\<lparr>dlt_expectation_condition := None\<rparr>)
     add_column [PyObj ''df''] []
   = ([], Inl (UnsupportedExpectationConfiguration
        ''Please provide at least one type of expectation configuration''))"
proof -
  have both: "dlt_library (positive_col1\<lparr>ge_expectation_configuration := Some not_null_config\<rparr>)
              = Some mock_dlt"
    by (simp add: positive_col1_def)
  have neither: "dlt_library (positive_col1\<lparr>dlt_expectation_condition := None\<rparr>) = Some mock_dlt"
    by (simp add: positive_col1_def)
  show ?thesis
    using C2_exactly_one_enforced [OF both, of stub_collaborators Map.empty add_column
        "[PyObj ''df'']" "[]"]
      C2_exactly_one_enforced [OF neither, of stub_collaborators Map.empty add_column
        "[PyObj ''df'']" "[]"]
    by (simp add: positive_col1_def)
qed

section \<open>C3: the original function is called once and its result returned\<close>

text \<open>
  C3 as stated, for every decoration with exactly one option and a resolvable engine,
  fails when a collaborator raises: the exception propagates and the original function
  is not called. Here the decoration supplies a configuration and a validation context,
  and the checkpoint runner fails.
\<close>

theorem C3_counterexample:
  "wrapper_expect failing_checkpoint Map.empty
     (by_configuration\<lparr>data_context := Some context0\<rparr>) add_column [PyObj ''df''] []
   = ([DLTExpectationFactoryInit,
       FactoryCall not_null_config (Some ''col1_not_null''),
       CheckpointCall context0 (PyObj ''df'') (Some not_null_config)],
      Inl (CollaboratorError ''checkpoint failed''))"
  by (simp add: wrapper_expect_def get_dlt_library_injected step_defs failing_checkpoint_def
      stub_collaborators_def by_configuration_def)

text \<open>
  C3, amended: for every decoration supplying exactly one of condition and
  configuration, with an injected engine, when the collaborators that the wrapper calls
  return (the translator or the factory, the checkpoint runner if a validation context
  was supplied, which also needs a first positional argument, and the engine's
  registration call if an expectation was produced), the original function is called
  exactly once, with exactly the original positional and keyword arguments, and what it
  returns is what the wrapped call returns.
\<close>

theorem C3_original_called_once:
  assumes "dlt_library d = Some m"
    and "expectation_built E d"
    and "checkpoint_returns E d args"
    and "registration_returns E m d"
  shows "filter is_FuncCall (fst (wrapper_expect E G d func args kwargs))
           = [FuncCall args kwargs]
       \<and> snd (wrapper_expect E G d func args kwargs) = func args kwargs"
  by (simp add: wrapper_expect_completes [OF assms] create_dlt_expectation_calls
      run_checkpoint_calls register_dlt_expectation_calls)

theorem C3_original_called_once_witness:
  "dlt_library by_configuration = Some mock_dlt
   \<and> expectation_built stub_collaborators by_configuration
   \<and> checkpoint_returns stub_collaborators by_configuration [PyObj ''df'']
   \<and> registration_returns stub_collaborators mock_dlt by_configuration
   \<and> filter is_FuncCall (fst (wrapper_expect stub_collaborators Map.empty by_configuration
        add_column [PyObj ''df''] [(''mode'', PyStr ''append'')]))
      = [FuncCall [PyObj ''df''] [(''mode'', PyStr ''append'')]]
   \<and> snd (wrapper_expect stub_collaborators Map.empty by_configuration
        add_column [PyObj ''df''] [(''mode'', PyStr ''append'')])
      = Inr (PyObj ''df_with_column'')"
proof -
  have e: "dlt_library by_configuration = Some mock_dlt"
    by (simp add: by_configuration_def)
  have b: "expectation_built stub_collaborators by_configuration"
    by (simp add: expectation_built_def registration_returns_def produced_expectation_def
        returns_def by_configuration_def stub_collaborators_def)
  have c: "checkpoint_returns stub_collaborators by_configuration [PyObj ''df'']"
    by (simp add: checkpoint_returns_def by_configuration_def)
  have r: "registration_returns stub_collaborators mock_dlt by_configuration"
    by (simp add: expectation_built_def registration_returns_def produced_expectation_def
        returns_def by_configuration_def stub_collaborators_def)
  show ?thesis
    using e b c r
      C3_original_called_once [OF e b c r, of Map.empty add_column "[(''mode'', PyStr ''append'')]"]
    by (simp add: add_column_def)
qed

section \<open>C4: no engine at all\<close>

text \<open>
  C4: when no engine is bound globally and none was injected, the call raises the
  module-not-found error whatever the condition and the configuration are, and nothing
  else has happened: no translation, no checkpoint, no registration, no call of the
  original function.
\<close>

theorem C4_unresolvable_engine_aborts:
  assumes "G ''dlt'' = None" and "dlt_library d = None"
  shows "wrapper_expect E G d func args kwargs
         = ([], Inl (ModuleNotFoundError ''dlt library was not found''))"
  using assms by (simp add: wrapper_expect_def get_dlt_library_injected io_lift_def)

theorem C4_unresolvable_engine_aborts_witness:
  "(Map.empty :: namespace) ''dlt'' = None
   \<and> dlt_library (positive_col1\<lparr>dlt_library := None\<rparr>) = None
   \<and> wrapper_expect stub_collaborators Map.empty (positive_col1\<lparr>dlt_library := None\<rparr>)
        add_column [PyObj ''df''] []
      = ([], Inl (ModuleNotFoundError ''dlt library was not found''))"
proof -
  have g: "(Map.empty :: namespace) ''dlt'' = None" by simp
  have l: "dlt_library (positive_col1\<lparr>dlt_library := None\<rparr>) = None" by simp
  show ?thesis
    using g l C4_unresolvable_engine_aborts [OF g l, of stub_collaborators add_column
        "[PyObj ''df'']" "[]"]
    by simp
qed

section \<open>C5: the checkpoint and the configuration it is given\<close>

text \<open>
  C5 as stated, for every call with a validation context, fails when the call aborts
  before line 127: with both options supplied the validation of lines 87-93 raises and
  the checkpoint runner is never called.
\<close>

theorem C5_counterexample:
  "wrapper_expect stub_collaborators Map.empty
     (positive_col1\<lparr>data_context := Some context0,
                     ge_expectation_configuration := Some not_null_config\<rparr>)
     add_column [PyObj ''df''] []
   = ([], Inl (UnsupportedExpectationConfiguration
        ''Please provide only one of dlt_expectation_condition OR ge_expectation_configuration, not both.''))"
  by (simp add: wrapper_expect_def get_dlt_library_injected step_defs positive_col1_def)

text \<open>
  C5, amended: for every call that reaches line 127 (an injected engine, exactly one of
  condition and configuration, its translation returned) with a validation context and
  at least one positional argument, the checkpoint runner is called exactly once, with
  that context, the first positional argument and the decoration's configuration
  option; when the decoration supplied a condition, that configuration is null, not the
  configuration translated from the condition.
\<close>

theorem C5_checkpoint_gets_decoration_configuration:
  assumes "dlt_library d = Some m"
    and "expectation_built E d"
    and "data_context d = Some ctx"
    and "args = df # rest"
  shows "filter is_CheckpointCall (fst (wrapper_expect E G d func args kwargs))
           = [CheckpointCall ctx df (ge_expectation_configuration d)]
       \<and> (dlt_expectation_condition d \<noteq> None \<longrightarrow>
            filter is_CheckpointCall (fst (wrapper_expect E G d func args kwargs))
              = [CheckpointCall ctx df None])"
proof -
  have cfg: "dlt_expectation_condition d \<noteq> None \<longrightarrow> ge_expectation_configuration d = None"
    using assms(2) by (auto simp: expectation_built_def split: option.splits)
  have "filter is_CheckpointCall (fst (wrapper_expect E G d func args kwargs))
          = [CheckpointCall ctx df (ge_expectation_configuration d)]"
    using assms
    by (simp add: wrapper_expect_injected check_exactly_one_built fst_io_bind
        create_dlt_expectation_built create_dlt_expectation_calls run_checkpoint_trace
        register_dlt_expectation_calls io_call_def split: sum.splits)
  with cfg show ?thesis by auto
qed

theorem C5_checkpoint_gets_decoration_configuration_witness:
  "expectation_built stub_collaborators (positive_col1\<lparr>data_context := Some context0\<rparr>)
   \<and> dlt_expectation_condition (positive_col1\<lparr>data_context := Some context0\<rparr>) \<noteq> None
   \<and> filter is_CheckpointCall (fst (wrapper_expect stub_collaborators Map.empty
        (positive_col1\<lparr>data_context := Some context0\<rparr>) add_column
        [PyObj ''df'', PyInt 2] []))
      = [CheckpointCall context0 (PyObj ''df'') None]"
proof -
  let ?d = "positive_col1\<lparr>data_context := Some context0\<rparr>"
  have e: "dlt_library ?d = Some mock_dlt"
    by (simp add: positive_col1_def)
  have b: "expectation_built stub_collaborators ?d"
    by (simp add: expectation_built_def registration_returns_def produced_expectation_def
        returns_def positive_col1_def stub_collaborators_def)
  have c: "data_context ?d = Some context0" by simp
  have a: "[PyObj ''df'', PyInt 2] = PyObj ''df'' # [PyInt 2]" by simp
  have n: "dlt_expectation_condition ?d \<noteq> None"
    by (simp add: positive_col1_def)
  show ?thesis
    using b n C5_checkpoint_gets_decoration_configuration [OF e b c a, of Map.empty add_column "[]"]
    by (simp add: positive_col1_def)
qed

section \<open>C6: when the original function runs\<close>

text \<open>
  C6 as stated, the original function runs under every circumstance other than the
  errors of step 2, fails at step 1: with a valid configuration and no engine the call
  raises the module-not-found error and the original function does not run.
\<close>

theorem C6_counterexample:
  "wrapper_expect stub_collaborators Map.empty (by_configuration\<lparr>dlt_library := None\<rparr>)
     add_column [PyObj ''df''] []
   = ([], Inl (ModuleNotFoundError ''dlt library was not found''))"
  by (simp add: wrapper_expect_def get_dlt_library_injected io_lift_def by_configuration_def)

text \<open>
  C6, amended: the wrapper leaves the control flow of the wrapped function alone except
  for the errors of step 1 (no engine), the errors of step 2 (both or neither option)
  and an exception of a collaborator. Whenever an engine is injected, exactly one
  option is supplied and the collaborators that are called return (the checkpoint
  runner on a first positional argument, when a validation context is supplied), the
  original function runs as the last thing the wrapper does, and its outcome, a value
  or an exception, is the outcome of the call.
\<close>

theorem C6_original_runs_last:
  assumes "dlt_library d = Some m"
    and "expectation_built E d"
    and "checkpoint_returns E d args"
    and "registration_returns E m d"
  shows "last (fst (wrapper_expect E G d func args kwargs)) = FuncCall args kwargs
       \<and> filter is_FuncCall (butlast (fst (wrapper_expect E G d func args kwargs))) = []
       \<and> snd (wrapper_expect E G d func args kwargs) = func args kwargs"
  by (simp add: wrapper_expect_completes [OF assms] butlast_append
      create_dlt_expectation_calls run_checkpoint_calls register_dlt_expectation_calls)

theorem C6_original_runs_last_witness:
  "expectation_built stub_collaborators positive_col1
   \<and> checkpoint_returns stub_collaborators positive_col1 []
   \<and> registration_returns stub_collaborators mock_dlt positive_col1
   \<and> last (fst (wrapper_expect stub_collaborators Map.empty positive_col1
        (\<lambda>args kwargs. Inl (CollaboratorError ''stage failed'')) [] []))
      = FuncCall [] []
   \<and> snd (wrapper_expect stub_collaborators Map.empty positive_col1
        (\<lambda>args kwargs. Inl (CollaboratorError ''stage failed'')) [] [])
      = Inl (CollaboratorError ''stage failed'')"
proof -
  have e: "dlt_library positive_col1 = Some mock_dlt"
    by (simp add: positive_col1_def)
  have b: "expectation_built stub_collaborators positive_col1"
    by (simp add: expectation_built_def registration_returns_def produced_expectation_def
        returns_def positive_col1_def stub_collaborators_def)
  have c: "checkpoint_returns stub_collaborators positive_col1 []"
    by (simp add: checkpoint_returns_def positive_col1_def)
  have r: "registration_returns stub_collaborators mock_dlt positive_col1"
    by (simp add: expectation_built_def registration_returns_def produced_expectation_def
        returns_def positive_col1_def stub_collaborators_def)
  show ?thesis
    using b c r
      C6_original_runs_last [OF e b c r, of Map.empty
        "\<lambda>args kwargs. Inl (CollaboratorError ''stage failed'')" "[]"]
    by simp
qed

section \<open>C7: the condition branch\<close>

text \<open>
  C7 as stated, for every call whose decoration supplied a condition only, fails when
  no engine can be resolved: nothing is constructed and the translator is not called.
\<close>

theorem C7_counterexample:
  "wrapper_expect stub_collaborators Map.empty (positive_col1\<lparr>dlt_library := None\<rparr>)
     add_column [PyObj ''df''] []
   = ([], Inl (ModuleNotFoundError ''dlt library was not found''))"
  by (simp add: wrapper_expect_def get_dlt_library_injected io_lift_def positive_col1_def)

text \<open>
  C7, amended: with an injected engine, for every call whose decoration supplied a
  condition and no configuration, the first thing the wrapper does is to construct
  \<^verbatim>\<open>DLTExpectation\<close> from the decoration's name and condition, the second is to call the
  translator with the one-element list of that (name, condition) pair and the rule type
  \<^verbatim>\<open>expect_column_values_to_not_be_null\<close>, and the translator is not called again.
\<close>

theorem C7_condition_branch_translates_one_pair:
  assumes "dlt_library d = Some m"
    and "dlt_expectation_condition d = Some c"
    and "ge_expectation_configuration d = None"
  shows "take 2 (fst (wrapper_expect E G d func args kwargs))
           = [DLTExpectationInit (dlt_expectation_name d) c,
              TranslateCall [(dlt_expectation_name d, c)]
                ''expect_column_values_to_not_be_null'']
       \<and> filter is_TranslateCall (fst (wrapper_expect E G d func args kwargs))
           = [TranslateCall [(dlt_expectation_name d, c)]
                ''expect_column_values_to_not_be_null'']"
  using assms
  by (simp add: wrapper_expect_injected check_exactly_one_condition
      create_dlt_expectation_condition fst_io_bind later_steps_do_not_translate io_call_def
      split: sum.splits)

theorem C7_condition_branch_translates_one_pair_witness:
  "take 2 (fst (wrapper_expect stub_collaborators Map.empty positive_col1 add_column
        [PyObj ''df''] []))
     = [DLTExpectationInit (Some ''positive_col1'') ''col1 > 0'',
        TranslateCall [(Some ''positive_col1'', ''col1 > 0'')]
          ''expect_column_values_to_not_be_null'']
   \<and> filter is_TranslateCall (fst (wrapper_expect stub_collaborators Map.empty
        positive_col1 add_column [PyObj ''df''] []))
     = [TranslateCall [(Some ''positive_col1'', ''col1 > 0'')]
          ''expect_column_values_to_not_be_null'']"
proof -
  have e: "dlt_library positive_col1 = Some mock_dlt"
    by (simp add: positive_col1_def)
  have c: "dlt_expectation_condition positive_col1 = Some ''col1 > 0''"
    by (simp add: positive_col1_def)
  have g: "ge_expectation_configuration positive_col1 = None"
    by (simp add: positive_col1_def)
  show ?thesis
    using C7_condition_branch_translates_one_pair [OF e c g, of stub_collaborators
        Map.empty add_column "[PyObj ''df'']" "[]"]
    by (simp add: positive_col1_def)
qed

section \<open>C8: the configuration branch and the registration\<close>

text \<open>
  C8 as stated, for every call whose decoration supplied a configuration only, fails
  when the factory rejects the configuration: its exception propagates and the
  engine's registration is never called.
\<close>

theorem C8_counterexample:
  "wrapper_expect rejecting_factory Map.empty by_configuration add_column [PyObj ''df''] []
   = ([DLTExpectationFactoryInit, FactoryCall not_null_config (Some ''col1_not_null'')],
      Inl (CollaboratorError ''unsupported expectation type''))"
  by (simp add: wrapper_expect_def get_dlt_library_injected step_defs rejecting_factory_def
      stub_collaborators_def by_configuration_def)

text \<open>
  C8, amended: with an injected engine, for every call whose decoration supplied a
  configuration and no condition, the wrapper first creates the factory and calls its
  translation with the configuration and the decoration's name as override name; when
  that returns an expectation and the checkpoint step completes (no validation context,
  or the runner returns on a first positional argument), the wrapper calls the
  registration of the injected engine exactly once, with that expectation's name and
  condition.
\<close>

theorem C8_configuration_branch_registers:
  assumes "dlt_library d = Some m"
    and "dlt_expectation_condition d = None"
    and "ge_expectation_configuration d = Some cfg"
    and "from_great_expectations_expectation E cfg (dlt_expectation_name d) = Inr (Some e)"
    and "checkpoint_returns E d args"
  shows "take 2 (fst (wrapper_expect E G d func args kwargs))
           = [DLTExpectationFactoryInit, FactoryCall cfg (dlt_expectation_name d)]
       \<and> filter is_DltExpectCall (fst (wrapper_expect E G d func args kwargs))
           = [DltExpectCall m (name e) (condition e)]"
  using assms
  by (simp add: wrapper_expect_injected check_exactly_one_configuration
      create_dlt_expectation_configuration fst_io_bind run_checkpoint_returns
      run_checkpoint_calls register_dlt_expectation_calls io_call_def split: sum.splits)

theorem C8_configuration_branch_registers_witness:
  "from_great_expectations_expectation stub_collaborators not_null_config
       (dlt_expectation_name by_configuration)
     = Inr (Some \<lparr>name = Some ''col1_not_null'', condition = ''col1 IS NOT NULL''\<rparr>)
   \<and> checkpoint_returns stub_collaborators by_configuration [PyObj ''df'']
   \<and> take 2 (fst (wrapper_expect stub_collaborators Map.empty by_configuration add_column
        [PyObj ''df''] []))
     = [DLTExpectationFactoryInit, FactoryCall not_null_config (Some ''col1_not_null'')]
   \<and> filter is_DltExpectCall (fst (wrapper_expect stub_collaborators Map.empty
        by_configuration add_column [PyObj ''df''] []))
     = [DltExpectCall mock_dlt (Some ''col1_not_null'') ''col1 IS NOT NULL'']"
proof -
  have e: "dlt_library by_configuration = Some mock_dlt"
    by (simp add: by_configuration_def)
  have c: "dlt_expectation_condition by_configuration = None"
    by (simp add: by_configuration_def)
  have g: "ge_expectation_configuration by_configuration = Some not_null_config"
    by (simp add: by_configuration_def)
  have f: "from_great_expectations_expectation stub_collaborators not_null_config
       (dlt_expectation_name by_configuration)
     = Inr (Some \<lparr>name = Some ''col1_not_null'', condition = ''col1 IS NOT NULL''\<rparr>)"
    by (simp add: by_configuration_def stub_collaborators_def)
  have r: "checkpoint_returns stub_collaborators by_configuration [PyObj ''df'']"
    by (simp add: checkpoint_returns_def by_configuration_def)
  show ?thesis
    using f r C8_configuration_branch_registers [OF e c g f r, of Map.empty add_column "[]"]
    by (simp add: by_configuration_def)
qed

section \<open>C9: a validation context and no positional argument\<close>

text \<open>
  C9 as stated, for every decoration with a validation context, fails when the call
  aborts before line 130: with neither option supplied the error is the one of lines
  94-100, not an index error.
\<close>

theorem C9_counterexample:
  "wrapper_expect stub_collaborators Map.empty
     (by_configuration\<lparr>data_context := Some context0,
                        ge_expectation_configuration := None\<rparr>)
     add_column [] []
   = ([], Inl (UnsupportedExpectationConfiguration
        ''Please provide at least one type of expectation configuration''))"
  by (simp add: wrapper_expect_def get_dlt_library_injected step_defs by_configuration_def)

text \<open>
  C9, amended: for every call that reaches line 127 (an injected engine, exactly one of
  condition and configuration, its translation returned) with a validation context and
  no positional argument, the call fails with \<open>IndexError\<close>: no length check guards
  \<^verbatim>\<open>args[0]\<close>, the checkpoint runner is not called and the original function does not run.
\<close>

theorem C9_no_argument_index_error:
  assumes "dlt_library d = Some m"
    and "expectation_built E d"
    and "data_context d = Some ctx"
  shows "snd (wrapper_expect E G d func [] kwargs) = Inl IndexError
       \<and> filter is_FuncCall (fst (wrapper_expect E G d func [] kwargs)) = []
       \<and> filter is_CheckpointCall (fst (wrapper_expect E G d func [] kwargs)) = []"
  using assms
  by (simp add: wrapper_expect_injected check_exactly_one_built fst_io_bind snd_io_bind
      create_dlt_expectation_built create_dlt_expectation_calls run_checkpoint_no_argument)

theorem C9_no_argument_index_error_witness:
  "expectation_built stub_collaborators (positive_col1\<lparr>data_context := Some context0\<rparr>)
   \<and> wrapper_expect stub_collaborators Map.empty
        (positive_col1\<lparr>data_context := Some context0\<rparr>) add_column [] []
     = ([DLTExpectationInit (Some ''positive_col1'') ''col1 > 0'',
         TranslateCall [(Some ''positive_col1'', ''col1 > 0'')]
           ''expect_column_values_to_not_be_null''],
        Inl IndexError)"
proof -
  let ?d = "positive_col1\<lparr>data_context := Some context0\<rparr>"
  have e: "dlt_library ?d = Some mock_dlt"
    by (simp add: positive_col1_def)
  have b: "expectation_built stub_collaborators ?d"
    by (simp add: expectation_built_def registration_returns_def produced_expectation_def
        returns_def positive_col1_def stub_collaborators_def)
  have c: "data_context ?d = Some context0" by simp
  have t: "fst (wrapper_expect stub_collaborators Map.empty ?d add_column [] [])
     = [DLTExpectationInit (Some ''positive_col1'') ''col1 > 0'',
        TranslateCall [(Some ''positive_col1'', ''col1 > 0'')]
          ''expect_column_values_to_not_be_null'']"
    by (simp add: wrapper_expect_def get_dlt_library_injected step_defs positive_col1_def
        stub_collaborators_def)
  show ?thesis
    using b t C9_no_argument_index_error [OF e b c, of Map.empty add_column "[]"]
    by (simp add: prod_eq_iff)
qed

section \<open>C10: a missing expectation name\<close>

text \<open>
  C10 as stated, for every decoration that takes the condition path without a name,
  fails when no engine can be resolved: no expectation is built and no registration
  call is made.
\<close>

theorem C10_counterexample:
  "wrapper_expect stub_collaborators Map.empty (unnamed_condition\<lparr>dlt_library := None\<rparr>)
     add_column [PyObj ''df''] []
   = ([], Inl (ModuleNotFoundError ''dlt library was not found''))"
  by (simp add: wrapper_expect_def get_dlt_library_injected io_lift_def
      unnamed_condition_def positive_col1_def)

text \<open>
  C10, amended: the name is never validated. With an injected engine, for every call
  whose decoration supplied a condition, no configuration and no name, the wrapper
  first constructs \<^verbatim>\<open>DLTExpectation\<close> with a null name; when the translator returns and
  the checkpoint step completes, it calls the engine's registration exactly once, with
  that null name and the condition; and the call ends as the registration call or the
  original function ends: the module raises nothing of its own for the missing name.
\<close>

theorem C10_null_name_registered:
  assumes "dlt_library d = Some m"
    and "dlt_expectation_condition d = Some c"
    and "ge_expectation_configuration d = None"
    and "dlt_expectation_name d = None"
    and "returns (translate_dlt_expectation_to_expectation_config E [(None, c)]
                    ''expect_column_values_to_not_be_null'')"
    and "checkpoint_returns E d args"
  shows "hd (fst (wrapper_expect E G d func args kwargs)) = DLTExpectationInit None c
       \<and> filter is_DltExpectCall (fst (wrapper_expect E G d func args kwargs))
           = [DltExpectCall m None c]
       \<and> snd (wrapper_expect E G d func args kwargs)
           = (case dlt_expect E m None c of Inl x \<Rightarrow> Inl x | Inr r \<Rightarrow> func args kwargs)"
  using assms
  by (simp add: wrapper_expect_injected check_exactly_one_condition
      create_dlt_expectation_condition fst_io_bind snd_io_bind run_checkpoint_returns
      run_checkpoint_calls register_dlt_expectation_calls register_dlt_expectation_result
      returns_def io_call_def split: sum.splits)

theorem C10_null_name_registered_witness:
  "dlt_expectation_name unnamed_condition = None
   \<and> returns (translate_dlt_expectation_to_expectation_config stub_collaborators
        [(None, ''col1 > 0'')] ''expect_column_values_to_not_be_null'')
   \<and> checkpoint_returns stub_collaborators unnamed_condition [PyObj ''df'']
   \<and> hd (fst (wrapper_expect stub_collaborators Map.empty unnamed_condition add_column
        [PyObj ''df''] []))
     = DLTExpectationInit None ''col1 > 0''
   \<and> filter is_DltExpectCall (fst (wrapper_expect stub_collaborators Map.empty
        unnamed_condition add_column [PyObj ''df''] []))
     = [DltExpectCall mock_dlt None ''col1 > 0'']
   \<and> snd (wrapper_expect stub_collaborators Map.empty unnamed_condition add_column
        [PyObj ''df''] [])
     = Inr (PyObj ''df_with_column'')"
proof -
  have e: "dlt_library unnamed_condition = Some mock_dlt"
    by (simp add: unnamed_condition_def positive_col1_def)
  have c: "dlt_expectation_condition unnamed_condition = Some ''col1 > 0''"
    by (simp add: unnamed_condition_def positive_col1_def)
  have g: "ge_expectation_configuration unnamed_condition = None"
    by (simp add: unnamed_condition_def positive_col1_def)
  have n: "dlt_expectation_name unnamed_condition = None"
    by (simp add: unnamed_condition_def)
  have t: "returns (translate_dlt_expectation_to_expectation_config stub_collaborators
        [(None, ''col1 > 0'')] ''expect_column_values_to_not_be_null'')"
    by (simp add: returns_def stub_collaborators_def)
  have r: "checkpoint_returns stub_collaborators unnamed_condition [PyObj ''df'']"
    by (simp add: checkpoint_returns_def unnamed_condition_def positive_col1_def)
  show ?thesis
    using n t r C10_null_name_registered [OF e c g n t r, of Map.empty add_column "[]"]
    by (simp add: stub_collaborators_def add_column_def)
qed

end
